theory Spec2Isabelle
  imports Main
begin

section \<open>JavaScript numbers\<close>

text \<open>
  Every numeric field of the application has the TypeScript type \<open>number\<close>. The values
  that reach the state are results of \<open>parseInt\<close> and of integer arithmetic on them, so a
  number is modelled as an integer or \<open>NaN\<close>. Integer arithmetic is taken to be exact
  (magnitudes below \<open>2^53\<close>); infinities and fractions do not arise from these operations.
\<close>

datatype jsnum = NaN | Fin int

fun js_add :: "jsnum \<Rightarrow> jsnum \<Rightarrow> jsnum" where
  "js_add (Fin a) (Fin b) = Fin (a + b)"
| "js_add _ _ = NaN"

fun js_sub :: "jsnum \<Rightarrow> jsnum \<Rightarrow> jsnum" where
  "js_sub (Fin a) (Fin b) = Fin (a - b)"
| "js_sub _ _ = NaN"

fun js_mul :: "jsnum \<Rightarrow> jsnum \<Rightarrow> jsnum" where
  "js_mul (Fin a) (Fin b) = Fin (a * b)"
| "js_mul _ _ = NaN"

text \<open>\<open>Math.max\<close> returns \<open>NaN\<close> as soon as one argument is \<open>NaN\<close>.\<close>

fun js_max :: "jsnum \<Rightarrow> jsnum \<Rightarrow> jsnum" where
  "js_max (Fin a) (Fin b) = Fin (max a b)"
| "js_max _ _ = NaN"

text \<open>Strict equality \<open>===\<close>: \<open>NaN\<close> equals nothing, itself included.\<close>

fun js_eq :: "jsnum \<Rightarrow> jsnum \<Rightarrow> bool" where
  "js_eq (Fin a) (Fin b) = (a = b)"
| "js_eq _ _ = False"

fun js_gt :: "jsnum \<Rightarrow> jsnum \<Rightarrow> bool" where
  "js_gt (Fin a) (Fin b) = (b < a)"
| "js_gt _ _ = False"

text \<open>Truthiness of a number: \<open>0\<close> and \<open>NaN\<close> are falsy.\<close>

fun js_truthy :: "jsnum \<Rightarrow> bool" where
  "js_truthy (Fin a) = (a \<noteq> 0)"
| "js_truthy NaN = False"

text \<open>\<open>a || b\<close> on numbers.\<close>

definition js_or :: "jsnum \<Rightarrow> jsnum \<Rightarrow> jsnum" where
  "js_or a b = (if js_truthy a then a else b)"

text \<open>
  \<open>parseInt(str)\<close> without a radix, on decimal input: leading white space is skipped, an
  optional sign is read, then the longest run of decimal digits; no digit at all gives
  \<open>NaN\<close>. (The value of a numeric input element is empty or a decimal numeral, so the
  hexadecimal prefix is left out.)
\<close>

definition is_space :: "char \<Rightarrow> bool" where
  "is_space c = (c \<in> set [CHR '' '', CHR 0x09, CHR 0x0A, CHR 0x0B, CHR 0x0C, CHR 0x0D])"

definition is_digit :: "char \<Rightarrow> bool" where
  "is_digit c = (c \<in> set ''0123456789'')"

definition digit_val :: "char \<Rightarrow> int" where
  "digit_val c = int (of_char c) - 48"

definition digits_val :: "string \<Rightarrow> int" where
  "digits_val ds = foldl (\<lambda>acc c. acc * 10 + digit_val c) 0 ds"

definition parse_digits :: "string \<Rightarrow> jsnum" where
  "parse_digits str =
     (let ds = takeWhile is_digit str
      in if ds = [] then NaN else Fin (digits_val ds))"

definition parseInt :: "string \<Rightarrow> jsnum" where
  "parseInt str =
     (case dropWhile is_space str of
        [] \<Rightarrow> NaN
      | c # rest \<Rightarrow>
          if c = CHR ''-'' then js_sub (Fin 0) (parse_digits rest)
          else if c = CHR ''+'' then parse_digits rest
          else parse_digits (c # rest))"

section \<open>Data model (types.ts)\<close>

datatype TimerMode = POMODORO | BREAK

text \<open>
  The fields \<open>id\<close> and \<open>date\<close> of the source are written \<open>id_t\<close>, \<open>date_t\<close> for a task
  and \<open>date_d\<close> for a day of statistics.
\<close>

record Task =
  id_t :: string
  title :: string
  isCompleted :: bool
  estimatedPomos :: jsnum
  completedPomos :: jsnum
  durationPerPomo :: jsnum
  date_t :: string

record DailyStats =
  date_d :: string
  pomodorosCompleted :: jsnum
  minutesFocused :: jsnum
  breaksTaken :: jsnum
  tasksCompleted :: jsnum

record AppSettings =
  pomodoroTime :: jsnum
  breakTime :: jsnum
  dailyGoalPomos :: jsnum
  streak :: jsnum
  lastActiveDate :: string

datatype sound = alarm | success | fail

text \<open>
  The state of the \<open>App\<close> component. \<open>sounds\<close> is the log of the calls of \<open>playSound\<close>,
  oldest first; it stands for the audio side effect.
\<close>

record app_state =
  mode :: TimerMode
  timeLeft :: jsnum
  isActive :: bool
  settings :: AppSettings
  tasks :: "Task list"
  activeTaskId :: "string option"
  dailyStats :: "DailyStats list"
  sounds :: "sound list"

section \<open>Timer handlers (App)\<close>

definition playSound :: "sound \<Rightarrow> app_state \<Rightarrow> app_state" where
  "playSound type s = s\<lparr>sounds := sounds s @ [type]\<rparr>"

text \<open>\<open>activeTaskId ? \<dots> : \<dots>\<close>: \<open>null\<close> and the empty string are falsy.\<close>

definition id_truthy :: "string option \<Rightarrow> bool" where
  "id_truthy a = (case a of None \<Rightarrow> False | Some i \<Rightarrow> i \<noteq> [])"

text \<open>\<open>tasks.find(t => t.id === activeTaskId)\<close>: no identifier equals \<open>null\<close>.\<close>

definition findActive :: "Task list \<Rightarrow> string option \<Rightarrow> Task option" where
  "findActive ts a = (case a of None \<Rightarrow> None | Some i \<Rightarrow> find (\<lambda>t. id_t t = i) ts)"

text \<open>
  A handler runs against the values of one render: its closures read the snapshot \<open>c\<close>,
  and its setters write the pending state \<open>u\<close>. The helpers called from handlers take both.
\<close>

definition resetTimerToMode :: "app_state \<Rightarrow> TimerMode \<Rightarrow> app_state \<Rightarrow> app_state" where
  "resetTimerToMode c targetMode u =
     (let activeTask = findActive (tasks c) (activeTaskId c)
      in if targetMode = POMODORO then
           (case activeTask of
              Some t \<Rightarrow> u\<lparr>timeLeft := js_mul (durationPerPomo t) (Fin 60)\<rparr>
            | None \<Rightarrow> u\<lparr>timeLeft := js_mul (pomodoroTime (settings c)) (Fin 60)\<rparr>)
         else u\<lparr>timeLeft := js_mul (breakTime (settings c)) (Fin 60)\<rparr>)"

definition switchMode :: "app_state \<Rightarrow> TimerMode \<Rightarrow> app_state \<Rightarrow> app_state" where
  "switchMode c newMode u = resetTimerToMode c newMode (u\<lparr>mode := newMode, isActive := False\<rparr>)"

text \<open>
  The expression
  \<open>activeTaskId ? tasks.find(t => t.id === activeTaskId)?.durationPerPomo || settings.pomodoroTime : settings.pomodoroTime\<close>,
  which \<open>handleTimerComplete\<close> and \<open>resetTimer\<close> both contain.
\<close>

definition sessionMinutes :: "app_state \<Rightarrow> jsnum" where
  "sessionMinutes c =
     (if id_truthy (activeTaskId c) then
        (case findActive (tasks c) (activeTaskId c) of
           None \<Rightarrow> pomodoroTime (settings c)
         | Some t \<Rightarrow> js_or (durationPerPomo t) (pomodoroTime (settings c)))
      else pomodoroTime (settings c))"

definition handleTimerComplete :: "string \<Rightarrow> app_state \<Rightarrow> app_state" where
  "handleTimerComplete today c =
     (let u1 = playSound alarm (c\<lparr>isActive := False\<rparr>)
      in if mode c = POMODORO then
           (let u2 = (if id_truthy (activeTaskId c)
                      then u1\<lparr>tasks := map (\<lambda>t. if Some (id_t t) = activeTaskId c
                                                 then t\<lparr>completedPomos := js_add (completedPomos t) (Fin 1)\<rparr>
                                                 else t) (tasks u1)\<rparr>
                      else u1);
                u3 = u2\<lparr>dailyStats := map (\<lambda>day. if date_d day = today
                                  then day\<lparr>pomodorosCompleted := js_add (pomodorosCompleted day) (Fin 1),
                                           minutesFocused := js_add (minutesFocused day) (sessionMinutes c)\<rparr>
                                  else day) (dailyStats u2)\<rparr>;
                u4 = u3\<lparr>settings := (settings u3)\<lparr>streak := js_add (streak (settings u3)) (Fin 1)\<rparr>\<rparr>
            in switchMode c BREAK u4)
         else
           (let u2 = u1\<lparr>dailyStats := map (\<lambda>day. if date_d day = today
                                  then day\<lparr>breaksTaken := js_add (breaksTaken day) (Fin 1)\<rparr>
                                  else day) (dailyStats u1)\<rparr>
            in switchMode c POMODORO u2))"

text \<open>
  The timer effect, run after every render in which \<open>isActive\<close> or \<open>timeLeft\<close> changed:
  it arms the one-second interval, or completes the session, or clears the interval.
  Arming and clearing leave the state as it is.
\<close>

definition timerEffect :: "string \<Rightarrow> app_state \<Rightarrow> app_state" where
  "timerEffect today s =
     (if isActive s \<and> js_gt (timeLeft s) (Fin 0) then s
      else if js_eq (timeLeft s) (Fin 0) \<and> isActive s then handleTimerComplete today s
      else s)"

text \<open>
  One firing of the interval. The interval exists exactly when the last run of the effect
  took its first branch; its callback is \<open>setTimeLeft(prev => prev - 1)\<close>, after which the
  effect runs again.
\<close>

definition tick :: "string \<Rightarrow> app_state \<Rightarrow> app_state" where
  "tick today s =
     (if isActive s \<and> js_gt (timeLeft s) (Fin 0)
      then timerEffect today (s\<lparr>timeLeft := js_sub (timeLeft s) (Fin 1)\<rparr>)
      else s)"

primrec ticks :: "string \<Rightarrow> nat \<Rightarrow> app_state \<Rightarrow> app_state" where
  "ticks today 0 s = s"
| "ticks today (Suc n) s = tick today (ticks today n s)"


definition resetTimer :: "app_state \<Rightarrow> app_state" where
  "resetTimer c =
     (let currentTotal = (if mode c = POMODORO
                          then js_mul (sessionMinutes c) (Fin 60)
                          else js_mul (breakTime (settings c)) (Fin 60));
          u1 = (if isActive c \<or> \<not> js_eq (timeLeft c) currentTotal then playSound fail c else c)
      in resetTimerToMode c (mode c) (u1\<lparr>isActive := False\<rparr>))"

definition handleBreakChange :: "jsnum \<Rightarrow> app_state \<Rightarrow> app_state" where
  "handleBreakChange newMinutes c =
     (let u1 = c\<lparr>settings := (settings c)\<lparr>breakTime := newMinutes\<rparr>\<rparr>
      in if mode c = BREAK \<and> \<not> isActive c
         then u1\<lparr>timeLeft := js_mul newMinutes (Fin 60)\<rparr>
         else u1)"

text \<open>
  The effect that depends on \<open>settings.pomodoroTime\<close> and \<open>settings.breakTime\<close>: when one
  of them has changed and the timer is not running, the timer is reset for the current mode.
\<close>

definition durationEffect :: "app_state \<Rightarrow> app_state" where
  "durationEffect s = (if \<not> isActive s then resetTimerToMode s (mode s) s else s)"

text \<open>
  The break-duration input: \<open>onChange={(e) => handleBreakChange(Math.max(1, parseInt(e.target.value) || 0))}\<close>,
  followed by the effect above when the break time is a new value.
\<close>

definition breakInputChange :: "string \<Rightarrow> app_state \<Rightarrow> app_state" where
  "breakInputChange v c =
     (let u = handleBreakChange (js_max (Fin 1) (js_or (parseInt v) (Fin 0))) c
      in if breakTime (settings u) \<noteq> breakTime (settings c) then durationEffect u else u)"

section \<open>Task handlers (App)\<close>

text \<open>\<open>new_id\<close> is the value of \<open>crypto.randomUUID()\<close>.\<close>

definition addTask :: "string \<Rightarrow> string \<Rightarrow> jsnum \<Rightarrow> jsnum \<Rightarrow> string \<Rightarrow> app_state \<Rightarrow> app_state" where
  "addTask new_id ttl est dur dt c =
     (let newTask = \<lparr>id_t = new_id, title = ttl, isCompleted = False, estimatedPomos = est,
                      completedPomos = Fin 0, durationPerPomo = dur, date_t = dt\<rparr>;
          u1 = c\<lparr>tasks := tasks c @ [newTask]\<rparr>
      in if \<not> id_truthy (activeTaskId c) then u1\<lparr>activeTaskId := Some new_id\<rparr> else u1)"

definition updateTaskDuration :: "string \<Rightarrow> jsnum \<Rightarrow> app_state \<Rightarrow> app_state" where
  "updateTaskDuration ident duration c =
     (let u1 = c\<lparr>tasks := map (\<lambda>t. if id_t t = ident then t\<lparr>durationPerPomo := duration\<rparr> else t)
                               (tasks c)\<rparr>
      in if activeTaskId c = Some ident \<and> \<not> isActive c \<and> mode c = POMODORO
         then u1\<lparr>timeLeft := js_mul duration (Fin 60)\<rparr>
         else u1)"

definition toggleTask :: "string \<Rightarrow> string \<Rightarrow> app_state \<Rightarrow> app_state" where
  "toggleTask today ident c =
     (case find (\<lambda>t. id_t t = ident) (tasks c) of
        None \<Rightarrow> c
      | Some task \<Rightarrow>
          (let newCompletionState = \<not> isCompleted task;
               u1 = c\<lparr>tasks := map (\<lambda>t. if id_t t = ident
                                          then t\<lparr>isCompleted := newCompletionState\<rparr> else t)
                                    (tasks c)\<rparr>;
               u2 = (if newCompletionState then playSound success u1 else u1)
           in u2\<lparr>dailyStats := map (\<lambda>day. if date_d day = today
                      then day\<lparr>tasksCompleted :=
                                 js_max (Fin 0) (js_add (tasksCompleted day)
                                                        (if newCompletionState then Fin 1 else Fin (- 1)))\<rparr>
                      else day) (dailyStats u2)\<rparr>))"

definition updatePomos :: "string \<Rightarrow> jsnum \<Rightarrow> app_state \<Rightarrow> app_state" where
  "updatePomos ident newEstimate c =
     c\<lparr>tasks := map (\<lambda>t. if id_t t = ident then t\<lparr>estimatedPomos := newEstimate\<rparr> else t) (tasks c)\<rparr>"

text \<open>The dashboard figure \<open>completedMinutesToday\<close>: a filter followed by a left fold.\<close>

definition completedMinutesToday :: "string \<Rightarrow> Task list \<Rightarrow> jsnum" where
  "completedMinutesToday todayDateStr ts =
     foldl (\<lambda>acc t. js_add acc (js_mul (estimatedPomos t) (durationPerPomo t))) (Fin 0)
           (filter (\<lambda>t. date_t t = todayDateStr \<and> isCompleted t) ts)"

text \<open>The effect run once when the component mounts (``Check Streak on Load'').\<close>

definition checkStreakOnLoad :: "string \<Rightarrow> app_state \<Rightarrow> app_state" where
  "checkStreakOnLoad today c =
     (let u1 = (if today \<noteq> lastActiveDate (settings c)
                then c\<lparr>settings := (settings c)\<lparr>lastActiveDate := today\<rparr>\<rparr> else c)
      in u1\<lparr>dailyStats :=
              (case find (\<lambda>s. date_d s = today) (dailyStats u1) of
                 None \<Rightarrow> dailyStats u1 @ [\<lparr>date_d = today, pomodorosCompleted = Fin 0,
                                            minutesFocused = Fin 0, breaksTaken = Fin 0,
                                            tasksCompleted = Fin 0\<rparr>]
               | Some exists \<Rightarrow> dailyStats u1)\<rparr>)"

section \<open>Inputs of the task list (TaskList)\<close>

text \<open>The state of the add-task form that \<open>handleSubmit\<close> reads and writes.\<close>

record form_state =
  newTaskTitle :: string
  estPomos :: jsnum
  customDuration :: jsnum
  taskDate :: string
  isAdding :: bool

text \<open>\<open>onChange={(e) => setEstPomos(parseInt(e.target.value))}\<close> and its twin for the duration.\<close>

definition estPomosChange :: "string \<Rightarrow> form_state \<Rightarrow> form_state" where
  "estPomosChange v f = f\<lparr>estPomos := parseInt v\<rparr>"

definition customDurationChange :: "string \<Rightarrow> form_state \<Rightarrow> form_state" where
  "customDurationChange v f = f\<lparr>customDuration := parseInt v\<rparr>"

text \<open>\<open>handleSubmit\<close>: nothing happens when the trimmed title is empty.\<close>

definition handleSubmit :: "string \<Rightarrow> string \<Rightarrow> form_state \<times> app_state \<Rightarrow> form_state \<times> app_state" where
  "handleSubmit today new_id fs =
     (case fs of (f, c) \<Rightarrow>
        if list_all is_space (newTaskTitle f) then (f, c)
        else (f\<lparr>newTaskTitle := [], estPomos := Fin 1, taskDate := today, isAdding := False\<rparr>,
              addTask new_id (newTaskTitle f) (estPomos f) (customDuration f) (taskDate f) c))"

text \<open>
  The quick-edit inputs of a task:
  \<open>onChange={(e) => onUpdatePomos(task.id, parseInt(e.target.value))}\<close> and
  \<open>onChange={(e) => onUpdateDuration(task.id, parseInt(e.target.value) || 25)}\<close>.
\<close>

definition estimateInputChange :: "string \<Rightarrow> string \<Rightarrow> app_state \<Rightarrow> app_state" where
  "estimateInputChange ident v c = updatePomos ident (parseInt v) c"

definition durationInputChange :: "string \<Rightarrow> string \<Rightarrow> app_state \<Rightarrow> app_state" where
  "durationInputChange ident v c = updateTaskDuration ident (js_or (parseInt v) (Fin 25)) c"

section \<open>Example states\<close>

text \<open>\<open>DEFAULT_SETTINGS\<close>, with the date of the first run as a parameter.\<close>

definition DEFAULT_SETTINGS :: "string \<Rightarrow> AppSettings" where
  "DEFAULT_SETTINGS today =
     \<lparr>pomodoroTime = Fin 25, breakTime = Fin 5, dailyGoalPomos = Fin 8, streak = Fin 0,
      lastActiveDate = today\<rparr>"

text \<open>The state of a first run: no task, no statistics, a paused focus timer of 25 minutes.\<close>

definition initial_state :: "string \<Rightarrow> app_state" where
  "initial_state today =
     \<lparr>mode = POMODORO, timeLeft = Fin 1500, isActive = False, settings = DEFAULT_SETTINGS today,
      tasks = [], activeTaskId = None, dailyStats = [], sounds = []\<rparr>"

text \<open>A focus session with three seconds left on the clock.\<close>

definition running3 :: app_state where
  "running3 = (initial_state ''2024-05-01'')\<lparr>timeLeft := Fin 3, isActive := True\<rparr>"

text \<open>
  Two tasks: \<open>task_a\<close> is open and scheduled for the next day, \<open>task_b\<close> is completed and
  scheduled for the current day, with no completed session.
\<close>

definition task_a :: Task where
  "task_a = \<lparr>id_t = ''a'', title = ''write'', isCompleted = False, estimatedPomos = Fin 4,
              completedPomos = Fin 2, durationPerPomo = Fin 50, date_t = ''2024-05-02''\<rparr>"

definition task_b :: Task where
  "task_b = \<lparr>id_t = ''b'', title = ''read'', isCompleted = True, estimatedPomos = Fin 3,
              completedPomos = Fin 0, durationPerPomo = Fin 25, date_t = ''2024-05-01''\<rparr>"

definition day_old :: DailyStats where
  "day_old = \<lparr>date_d = ''2024-04-30'', pomodorosCompleted = Fin 4, minutesFocused = Fin 100,
               breaksTaken = Fin 3, tasksCompleted = Fin 1\<rparr>"

definition day_now :: DailyStats where
  "day_now = \<lparr>date_d = ''2024-05-01'', pomodorosCompleted = Fin 1, minutesFocused = Fin 25,
               breaksTaken = Fin 1, tasksCompleted = Fin 0\<rparr>"

text \<open>A focus session on \<open>task_a\<close> whose clock has just reached zero.\<close>

definition busy_state :: app_state where
  "busy_state =
     \<lparr>mode = POMODORO, timeLeft = Fin 0, isActive = True,
      settings = DEFAULT_SETTINGS ''2024-05-01'', tasks = [task_a, task_b],
      activeTaskId = Some ''a'', dailyStats = [day_old, day_now], sounds = []\<rparr>"

text \<open>The same state when the record of the current day is missing.\<close>

definition stale_state :: app_state where
  "stale_state = busy_state\<lparr>dailyStats := [day_old]\<rparr>"




text \<open>The add-task form as it opens, with a title typed in.\<close>

definition form_open :: form_state where
  "form_open = \<lparr>newTaskTitle = ''plan'', estPomos = Fin 1, customDuration = Fin 25,
                 taskDate = ''2024-05-01'', isAdding = True\<rparr>"

text \<open>A paused focus timer with \<open>task_a\<close> selected, showing the 50 minutes of its override.\<close>

definition paused_state :: app_state where
  "paused_state = busy_state\<lparr>timeLeft := Fin 3000, isActive := False\<rparr>"

section \<open>The dashboard sum as the specification words it\<close>

text \<open>
  The sum of \<open>estimatedPomos \<times> durationPerPomo\<close> over the tasks that are completed and
  scheduled for today, as a sum of numbers in list order.
\<close>

definition js_sum :: "jsnum list \<Rightarrow> jsnum" where
  "js_sum xs = foldr js_add xs (Fin 0)"

definition completedMinutesToday_spec :: "string \<Rightarrow> Task list \<Rightarrow> jsnum" where
  "completedMinutesToday_spec today ts =
     js_sum (map (\<lambda>t. js_mul (estimatedPomos t) (durationPerPomo t))
                 (filter (\<lambda>t. isCompleted t \<and> date_t t = today) ts))"

text \<open>The integer a number holds; only used where the number is known not to be \<open>NaN\<close>.\<close>

fun the_int :: "jsnum \<Rightarrow> int" where
  "the_int (Fin n) = n"
| "the_int NaN = 0"

section \<open>Well-formed counters\<close>

text \<open>A counter of the statistics is an integer that is not negative.\<close>

definition counter_ok :: "jsnum \<Rightarrow> bool" where
  "counter_ok x = (case x of NaN \<Rightarrow> False | Fin n \<Rightarrow> 0 \<le> n)"

definition tasksCompleted_ok :: "app_state \<Rightarrow> bool" where
  "tasksCompleted_ok s = list_all (\<lambda>day. counter_ok (tasksCompleted day)) (dailyStats s)"

section \<open>Frame lemmas\<close>

lemma resetTimerToMode_frame:
  "isActive (resetTimerToMode c m u) = isActive u"
  "mode (resetTimerToMode c m u) = mode u"
  "sounds (resetTimerToMode c m u) = sounds u"
  "tasks (resetTimerToMode c m u) = tasks u"
  "dailyStats (resetTimerToMode c m u) = dailyStats u"
  "settings (resetTimerToMode c m u) = settings u"
  "activeTaskId (resetTimerToMode c m u) = activeTaskId u"
  by (simp_all add: resetTimerToMode_def Let_def split: option.split)

lemma switchMode_frame:
  "isActive (switchMode c m u) = False"
  "mode (switchMode c m u) = m"
  "sounds (switchMode c m u) = sounds u"
  "tasks (switchMode c m u) = tasks u"
  "dailyStats (switchMode c m u) = dailyStats u"
  "settings (switchMode c m u) = settings u"
  "activeTaskId (switchMode c m u) = activeTaskId u"
  by (simp_all add: switchMode_def resetTimerToMode_frame)

lemma handleTimerComplete_isActive: "isActive (handleTimerComplete today c) = False"
  by (simp add: handleTimerComplete_def Let_def switchMode_frame)

lemma handleTimerComplete_sounds: "sounds (handleTimerComplete today c) = sounds c @ [alarm]"
  by (simp add: handleTimerComplete_def Let_def switchMode_frame playSound_def)

lemma handleTimerComplete_focus_timer:
  "mode c = POMODORO \<Longrightarrow>
     timeLeft (handleTimerComplete today c) = js_mul (breakTime (settings c)) (Fin 60)"
  by (simp add: handleTimerComplete_def Let_def switchMode_def resetTimerToMode_def)

lemma handleTimerComplete_focus_mode:
  "mode c = POMODORO \<Longrightarrow> mode (handleTimerComplete today c) = BREAK"
  by (simp add: handleTimerComplete_def Let_def switchMode_frame)

lemma handleTimerComplete_dailyStats:
  "dailyStats (handleTimerComplete today c) =
     map (\<lambda>day. if date_d day = today
                 then (if mode c = POMODORO
                       then day\<lparr>pomodorosCompleted := js_add (pomodorosCompleted day) (Fin 1),
                                minutesFocused := js_add (minutesFocused day) (sessionMinutes c)\<rparr>
                       else day\<lparr>breaksTaken := js_add (breaksTaken day) (Fin 1)\<rparr>)
                 else day) (dailyStats c)"
  by (simp add: handleTimerComplete_def Let_def switchMode_frame playSound_def)

section \<open>The countdown\<close>

lemma tick_idle: "\<not> isActive s \<Longrightarrow> tick today s = s"
  by (simp add: tick_def)

lemma ticks_idle: "\<not> isActive s \<Longrightarrow> ticks today n s = s"
  by (induction n) (simp_all add: tick_idle)

lemma ticks_add: "ticks today (m + n) s = ticks today m (ticks today n s)"
  by (induction m) simp_all

lemma ticks_before:
  assumes "isActive s" and "timeLeft s = Fin (int d)"
  shows "k < d \<Longrightarrow> ticks today k s = s\<lparr>timeLeft := Fin (int d - int k)\<rparr>"
proof (induction k)
  case 0
  from assms(2) show ?case by simp
next
  case (Suc k)
  then have prev: "ticks today k s = s\<lparr>timeLeft := Fin (int d - int k)\<rparr>" by simp
  from Suc.prems have "int d - int k > 1" by simp
  with assms(1) show ?case
    by (simp add: prev tick_def timerEffect_def algebra_simps)
qed

lemma ticks_complete:
  assumes "isActive s" and "timeLeft s = Fin (int d)" and "0 < d"
  shows "ticks today d s = handleTimerComplete today (s\<lparr>timeLeft := Fin 0\<rparr>)"
proof -
  obtain k where d: "d = Suc k" using assms(3) by (cases d) auto
  have prev: "ticks today k s = s\<lparr>timeLeft := Fin (int d - int k)\<rparr>"
    using ticks_before [OF assms(1,2), of k today] d by simp
  show ?thesis using assms(1) by (simp add: d prev [unfolded d] tick_def timerEffect_def)
qed

text \<open>
  Claim C1. From a running timer with \<open>d > 0\<close> seconds left, each of the first \<open>d - 1\<close> ticks
  only takes one second off the clock; the \<open>d\<close>-th tick brings the clock to zero and
  performs the completion; every later tick finds the timer stopped and does nothing. So
  after \<open>d\<close> ticks or more the completion has happened once: the state is the one a
  single \<open>handleTimerComplete\<close> leaves, and the log of cues has grown by one alarm.
\<close>

theorem countdown_completes_once:
  "isActive s \<Longrightarrow> timeLeft s = Fin (int d) \<Longrightarrow> 0 < d \<Longrightarrow>
     (\<forall>k<d. ticks today k s = s\<lparr>timeLeft := Fin (int d - int k)\<rparr>) \<and>
     (\<forall>n\<ge>d. ticks today n s = handleTimerComplete today (s\<lparr>timeLeft := Fin 0\<rparr>)) \<and>
     (\<forall>n\<ge>d. sounds (ticks today n s) = sounds s @ [alarm])"
proof -
  assume a: "isActive s" "timeLeft s = Fin (int d)" "0 < d"
  have before: "\<forall>k<d. ticks today k s = s\<lparr>timeLeft := Fin (int d - int k)\<rparr>"
    using ticks_before [OF a(1,2)] by blast
  have after: "ticks today n s = handleTimerComplete today (s\<lparr>timeLeft := Fin 0\<rparr>)"
    if "d \<le> n" for n
  proof -
    from that obtain m where n: "n = m + d" by (metis le_add_diff_inverse2)
    show ?thesis
      by (simp add: n ticks_add ticks_complete [OF a] ticks_idle handleTimerComplete_isActive)
  qed
  from before after show ?thesis by (simp add: handleTimerComplete_sounds)
qed

theorem countdown_completes_once_witness:
  "isActive running3 \<and> timeLeft running3 = Fin (int 3) \<and> (0::nat) < 3 \<and>
   ticks ''2024-05-01'' 2 running3 = running3\<lparr>timeLeft := Fin 1\<rparr> \<and>
   ticks ''2024-05-01'' 3 running3
     = handleTimerComplete ''2024-05-01'' (running3\<lparr>timeLeft := Fin 0\<rparr>) \<and>
   sounds (ticks ''2024-05-01'' 7 running3) = [alarm]"
proof -
  have h: "isActive running3" "timeLeft running3 = Fin (int 3)" "(0::nat) < 3"
    by (simp_all add: running3_def initial_state_def)
  have s: "sounds running3 = []" by (simp add: running3_def initial_state_def)
  note c = countdown_completes_once [OF h, of "''2024-05-01''"]
  from c have "2 < (3::nat) \<longrightarrow>
      ticks ''2024-05-01'' 2 running3 = running3\<lparr>timeLeft := Fin (int 3 - int 2)\<rparr>"
    by blast
  moreover from c have "(3::nat) \<le> 3 \<longrightarrow> ticks ''2024-05-01'' 3 running3
           = handleTimerComplete ''2024-05-01'' (running3\<lparr>timeLeft := Fin 0\<rparr>)"
    by blast
  moreover from c have "(3::nat) \<le> 7 \<longrightarrow>
      sounds (ticks ''2024-05-01'' 7 running3) = sounds running3 @ [alarm]"
    by blast
  ultimately show ?thesis using h s by simp
qed

section \<open>Completion of a focus session\<close>

lemma timerEffect_zero:
  "isActive c \<Longrightarrow> timeLeft c = Fin 0 \<Longrightarrow> timerEffect today c = handleTimerComplete today c"
  by (simp add: timerEffect_def)

text \<open>
  Claim C2. In focus mode the completion, whether the Skip button calls
  \<open>handleTimerComplete\<close> or the timer effect does at zero, stops the timer, switches to
  break mode and sets the clock to \<open>settings.breakTime * 60\<close>, whatever the tasks and the
  selection are.
\<close>

theorem focus_completion_switches_to_break:
  "mode c = POMODORO \<Longrightarrow>
     \<not> isActive (handleTimerComplete today c) \<and>
     mode (handleTimerComplete today c) = BREAK \<and>
     timeLeft (handleTimerComplete today c) = js_mul (breakTime (settings c)) (Fin 60) \<and>
     (isActive c \<and> timeLeft c = Fin 0 \<longrightarrow> timerEffect today c = handleTimerComplete today c)"
  by (simp add: handleTimerComplete_isActive handleTimerComplete_focus_mode
        handleTimerComplete_focus_timer timerEffect_zero)

theorem focus_completion_switches_to_break_witness:
  "mode busy_state = POMODORO \<and> isActive busy_state \<and> timeLeft busy_state = Fin 0 \<and>
   durationPerPomo task_a = Fin 50 \<and>
   \<not> isActive (handleTimerComplete ''2024-05-01'' busy_state) \<and>
   mode (handleTimerComplete ''2024-05-01'' busy_state) = BREAK \<and>
   timeLeft (handleTimerComplete ''2024-05-01'' busy_state) = Fin 300 \<and>
   timerEffect ''2024-05-01'' busy_state = handleTimerComplete ''2024-05-01'' busy_state"
proof -
  have h: "mode busy_state = POMODORO" "isActive busy_state" "timeLeft busy_state = Fin 0"
    by (simp_all add: busy_state_def)
  have b: "js_mul (breakTime (settings busy_state)) (Fin 60) = Fin 300"
    by (simp add: busy_state_def DEFAULT_SETTINGS_def)
  from focus_completion_switches_to_break [OF h(1), of "''2024-05-01''"] h b
  show ?thesis by (simp add: task_a_def)
qed

section \<open>Statistics\<close>

lemma toggleTask_dailyStats:
  "find (\<lambda>t. id_t t = ident) (tasks c) = Some task \<Longrightarrow>
   dailyStats (toggleTask today ident c) =
     map (\<lambda>day. if date_d day = today
                 then day\<lparr>tasksCompleted :=
                            js_max (Fin 0) (js_add (tasksCompleted day)
                                                   (if isCompleted task then Fin (- 1) else Fin 1))\<rparr>
                 else day) (dailyStats c)"
  by (simp add: toggleTask_def Let_def playSound_def)

lemma toggleTask_absent:
  "find (\<lambda>t. id_t t = ident) (tasks c) = None \<Longrightarrow> toggleTask today ident c = c"
  by (simp add: toggleTask_def)

lemma map_other_dates:
  "\<forall>day\<in>set ds. date_d day \<noteq> today \<Longrightarrow>
     map (\<lambda>day. if date_d day = today then f day else day) ds = ds"
  by (induction ds) simp_all

lemma toggleTask_dates:
  "map date_d (dailyStats (toggleTask today ident c)) = map date_d (dailyStats c)"
proof (cases "find (\<lambda>t. id_t t = ident) (tasks c)")
  case None
  then show ?thesis by (simp add: toggleTask_absent)
next
  case (Some task)
  then show ?thesis by (simp add: toggleTask_dailyStats comp_def)
qed

lemma toggleTask_other_days:
  "i < length (dailyStats c) \<Longrightarrow> date_d (dailyStats c ! i) \<noteq> today \<Longrightarrow>
     dailyStats (toggleTask today ident c) ! i = dailyStats c ! i"
proof (cases "find (\<lambda>t. id_t t = ident) (tasks c)")
  case None
  then show ?thesis by (simp add: toggleTask_absent)
next
  case (Some task)
  assume "i < length (dailyStats c)" "date_d (dailyStats c ! i) \<noteq> today"
  with Some show ?thesis by (simp add: toggleTask_dailyStats)
qed

lemma toggleTask_no_today:
  assumes "\<forall>day\<in>set (dailyStats c). date_d day \<noteq> today"
  shows "dailyStats (toggleTask today ident c) = dailyStats c"
proof (cases "find (\<lambda>t. id_t t = ident) (tasks c)")
  case None
  then show ?thesis by (simp add: toggleTask_absent)
next
  case (Some task)
  then show ?thesis using assms by (simp add: toggleTask_dailyStats map_other_dates)
qed

text \<open>
  Claim C4. The operations that credit the statistics (the completion of a focus session or
  of a break, and the toggle of a task) map over the list of daily records and touch only the
  records dated today: the list keeps its length and its dates, a record of another date is
  left as it is, and when no record is dated today the whole list is unchanged, so the
  credit is lost. Only \<open>checkStreakOnLoad\<close> appends a record.
\<close>

theorem crediting_never_creates_record:
  "map date_d (dailyStats (handleTimerComplete today c)) = map date_d (dailyStats c) \<and>
   map date_d (dailyStats (toggleTask today ident c)) = map date_d (dailyStats c) \<and>
   (\<forall>i<length (dailyStats c). date_d (dailyStats c ! i) \<noteq> today \<longrightarrow>
      dailyStats (handleTimerComplete today c) ! i = dailyStats c ! i \<and>
      dailyStats (toggleTask today ident c) ! i = dailyStats c ! i) \<and>
   ((\<forall>day\<in>set (dailyStats c). date_d day \<noteq> today) \<longrightarrow>
      dailyStats (handleTimerComplete today c) = dailyStats c \<and>
      dailyStats (toggleTask today ident c) = dailyStats c)"
  by (simp add: toggleTask_dates toggleTask_other_days toggleTask_no_today
        handleTimerComplete_dailyStats map_other_dates comp_def)

theorem crediting_never_creates_record_witness:
  "dailyStats stale_state = [day_old] \<and> date_d day_old \<noteq> ''2024-05-01'' \<and>
   dailyStats (handleTimerComplete ''2024-05-01'' stale_state) = [day_old] \<and>
   dailyStats (toggleTask ''2024-05-01'' ''a'' stale_state) = [day_old]"
proof -
  have h: "dailyStats stale_state = [day_old]" "date_d day_old \<noteq> ''2024-05-01''"
    by (simp_all add: stale_state_def day_old_def)
  then have "\<forall>day\<in>set (dailyStats stale_state). date_d day \<noteq> ''2024-05-01''" by simp
  with crediting_never_creates_record [of "''2024-05-01''" stale_state "''a''"] h show ?thesis by simp
qed

lemma find_map_task:
  "find P (map g xs) = map_option g (find (\<lambda>x. P (g x)) xs)"
  by (induction xs) simp_all

lemma toggleTask_date_independent:
  "dailyStats (toggleTask today ident (c\<lparr>tasks := map (\<lambda>t. t\<lparr>date_t := f t\<rparr>) (tasks c)\<rparr>))
     = dailyStats (toggleTask today ident c)"
proof (cases "find (\<lambda>t. id_t t = ident) (tasks c)")
  case None
  then have "find (\<lambda>t. id_t t = ident) (map (\<lambda>t. t\<lparr>date_t := f t\<rparr>) (tasks c)) = None"
    by (simp add: find_map_task)
  with None show ?thesis by (simp add: toggleTask_def)
next
  case (Some task)
  then have "find (\<lambda>t. id_t t = ident) (map (\<lambda>t. t\<lparr>date_t := f t\<rparr>) (tasks c))
               = Some (task\<lparr>date_t := f task\<rparr>)"
    by (simp add: find_map_task)
  from toggleTask_dailyStats [of ident "c\<lparr>tasks := map (\<lambda>t. t\<lparr>date_t := f t\<rparr>) (tasks c)\<rparr>", simplified, OF this]
    toggleTask_dailyStats [OF Some]
  show ?thesis by simp
qed

text \<open>
  Claim C5. Toggling a task that is in the list rewrites the records dated today and no
  other: on a counter \<open>n \<ge> 0\<close>, completing the task gives \<open>n + 1\<close>; reopening it gives
  \<open>n - 1\<close>, or \<open>0\<close> when that would be negative. The scheduled dates of the tasks play
  no part: replacing them by any others gives the same statistics.
\<close>

theorem toggleTask_credits_today:
  "find (\<lambda>t. id_t t = ident) (tasks c) = Some task \<Longrightarrow> i < length (dailyStats c) \<Longrightarrow>
     length (dailyStats (toggleTask today ident c)) = length (dailyStats c) \<and>
     (date_d (dailyStats c ! i) \<noteq> today \<longrightarrow>
        dailyStats (toggleTask today ident c) ! i = dailyStats c ! i) \<and>
     (date_d (dailyStats c ! i) = today \<longrightarrow>
        (\<forall>n. tasksCompleted (dailyStats c ! i) = Fin n \<longrightarrow>
           (\<not> isCompleted task \<and> 0 \<le> n \<longrightarrow>
              dailyStats (toggleTask today ident c) ! i
                = (dailyStats c ! i)\<lparr>tasksCompleted := Fin (n + 1)\<rparr>) \<and>
           (isCompleted task \<longrightarrow>
              dailyStats (toggleTask today ident c) ! i
                = (dailyStats c ! i)\<lparr>tasksCompleted := Fin (max 0 (n - 1))\<rparr>))) \<and>
     dailyStats (toggleTask today ident (c\<lparr>tasks := map (\<lambda>t. t\<lparr>date_t := f t\<rparr>) (tasks c)\<rparr>))
       = dailyStats (toggleTask today ident c)"
  by (simp add: toggleTask_dailyStats toggleTask_date_independent max_def)

theorem toggleTask_credits_today_witness:
  "find (\<lambda>t. id_t t = ''a'') (tasks busy_state) = Some task_a \<and> \<not> isCompleted task_a \<and>
   find (\<lambda>t. id_t t = ''b'') (tasks busy_state) = Some task_b \<and> isCompleted task_b \<and>
   date_t task_a \<noteq> ''2024-05-01'' \<and>
   dailyStats busy_state = [day_old, day_now] \<and> tasksCompleted day_now = Fin 0 \<and>
   dailyStats (toggleTask ''2024-05-01'' ''a'' busy_state) ! 0 = day_old \<and>
   dailyStats (toggleTask ''2024-05-01'' ''a'' busy_state) ! 1 = day_now\<lparr>tasksCompleted := Fin 1\<rparr> \<and>
   dailyStats (toggleTask ''2024-05-01'' ''b'' busy_state) ! 1 = day_now\<lparr>tasksCompleted := Fin 0\<rparr>"
proof -
  have fa: "find (\<lambda>t. id_t t = ''a'') (tasks busy_state) = Some task_a"
    and fb: "find (\<lambda>t. id_t t = ''b'') (tasks busy_state) = Some task_b"
    by (simp_all add: busy_state_def task_a_def task_b_def)
  have ds: "dailyStats busy_state = [day_old, day_now]" by (simp add: busy_state_def)
  have i0: "0 < length (dailyStats busy_state)" and i1: "1 < length (dailyStats busy_state)"
    by (simp_all add: ds)
  have facts: "\<not> isCompleted task_a" "isCompleted task_b" "date_t task_a \<noteq> ''2024-05-01''"
    "tasksCompleted day_now = Fin 0" "date_d day_old \<noteq> ''2024-05-01''"
    "date_d day_now = ''2024-05-01''"
    by (simp_all add: task_a_def task_b_def day_now_def day_old_def)
  from toggleTask_credits_today [OF fa i0, of "''2024-05-01''"] facts ds
  have a0: "dailyStats (toggleTask ''2024-05-01'' ''a'' busy_state) ! 0 = day_old" by simp
  from toggleTask_credits_today [OF fa i1, of "''2024-05-01''"] facts ds
  have a1: "dailyStats (toggleTask ''2024-05-01'' ''a'' busy_state) ! 1
              = day_now\<lparr>tasksCompleted := Fin 1\<rparr>" by simp
  from toggleTask_credits_today [OF fb i1, of "''2024-05-01''"] facts ds
  have b1: "dailyStats (toggleTask ''2024-05-01'' ''b'' busy_state) ! 1
              = day_now\<lparr>tasksCompleted := Fin 0\<rparr>" by simp
  from fa fb facts ds a0 a1 b1 show ?thesis by simp
qed

text \<open>
  The counter \<open>tasksCompleted\<close> stays a non-negative integer under the operations that
  write the statistics.
\<close>

lemma counter_ok_toggle:
  "counter_ok x \<Longrightarrow> counter_ok (js_max (Fin 0) (js_add x (Fin 1)))"
  "counter_ok x \<Longrightarrow> counter_ok (js_max (Fin 0) (js_add x (Fin (- 1))))"
  by (cases x; simp add: counter_ok_def)+

lemma toggleTask_keeps_counters:
  "tasksCompleted_ok c \<Longrightarrow> tasksCompleted_ok (toggleTask today ident c)"
proof (cases "find (\<lambda>t. id_t t = ident) (tasks c)")
  case None
  assume "tasksCompleted_ok c"
  with None show ?thesis by (simp add: toggleTask_absent)
next
  case (Some task)
  assume "tasksCompleted_ok c"
  with Some show ?thesis
    by (auto simp add: toggleTask_dailyStats tasksCompleted_ok_def list_all_iff counter_ok_toggle)
qed

lemma handleTimerComplete_keeps_counters:
  "tasksCompleted_ok c \<Longrightarrow> tasksCompleted_ok (handleTimerComplete today c)"
  by (auto simp add: handleTimerComplete_dailyStats tasksCompleted_ok_def list_all_iff)

lemma checkStreakOnLoad_keeps_counters:
  "tasksCompleted_ok c \<Longrightarrow> tasksCompleted_ok (checkStreakOnLoad today c)"
  by (simp add: checkStreakOnLoad_def Let_def tasksCompleted_ok_def counter_ok_def
        split: option.split)

section \<open>Tasks\<close>

lemma handleTimerComplete_tasks:
  "mode c = POMODORO \<Longrightarrow>
   tasks (handleTimerComplete today c) =
     (if id_truthy (activeTaskId c)
      then map (\<lambda>t. if Some (id_t t) = activeTaskId c
                     then t\<lparr>completedPomos := js_add (completedPomos t) (Fin 1)\<rparr> else t) (tasks c)
      else tasks c)"
  by (simp add: handleTimerComplete_def Let_def switchMode_frame playSound_def)

text \<open>
  Claim C6. When a focus session completes with the task \<open>a\<close> selected, every task with
  that identifier has \<open>completedPomos\<close> raised by one and is otherwise unchanged, and
  every other task is unchanged. With no selection (\<open>null\<close>, or the empty string, which the
  handler treats alike) the task list is unchanged.
\<close>

theorem focus_completion_increments_active_task:
  "mode c = POMODORO \<Longrightarrow>
     length (tasks (handleTimerComplete today c)) = length (tasks c) \<and>
     (\<forall>a. activeTaskId c = Some a \<and> a \<noteq> [] \<longrightarrow>
        (\<forall>i<length (tasks c).
           (id_t (tasks c ! i) = a \<longrightarrow>
              tasks (handleTimerComplete today c) ! i
                = (tasks c ! i)\<lparr>completedPomos := js_add (completedPomos (tasks c ! i)) (Fin 1)\<rparr> \<and>
              (\<forall>n. completedPomos (tasks c ! i) = Fin n \<longrightarrow>
                 completedPomos (tasks (handleTimerComplete today c) ! i) = Fin (n + 1))) \<and>
           (id_t (tasks c ! i) \<noteq> a \<longrightarrow>
              tasks (handleTimerComplete today c) ! i = tasks c ! i))) \<and>
     (\<not> id_truthy (activeTaskId c) \<longrightarrow> tasks (handleTimerComplete today c) = tasks c)"
  by (auto simp add: handleTimerComplete_tasks id_truthy_def)

theorem focus_completion_increments_active_task_witness:
  "mode busy_state = POMODORO \<and> activeTaskId busy_state = Some ''a'' \<and>
   tasks busy_state = [task_a, task_b] \<and> completedPomos task_a = Fin 2 \<and>
   tasks (handleTimerComplete ''2024-05-01'' busy_state)
     = [task_a\<lparr>completedPomos := Fin 3\<rparr>, task_b] \<and>
   tasks (handleTimerComplete ''2024-05-01'' (busy_state\<lparr>activeTaskId := None\<rparr>))
     = [task_a, task_b]"
proof -
  have h: "mode busy_state = POMODORO" "activeTaskId busy_state = Some ''a''"
    "tasks busy_state = [task_a, task_b]" "completedPomos task_a = Fin 2"
    "id_t task_a = ''a''" "id_t task_b \<noteq> ''a''"
    by (simp_all add: busy_state_def task_a_def task_b_def)
  let ?r = "tasks (handleTimerComplete ''2024-05-01'' busy_state)"
  note c = focus_completion_increments_active_task [OF h(1), of "''2024-05-01''"]
  from c h have len: "length ?r = 2" by simp
  from c h have "(0::nat) < 2 \<longrightarrow> ?r ! 0 = task_a\<lparr>completedPomos := Fin 3\<rparr>" by simp
  moreover from c h have "(1::nat) < 2 \<longrightarrow> ?r ! 1 = task_b" by force
  ultimately have r: "?r = [task_a\<lparr>completedPomos := Fin 3\<rparr>, task_b]"
    using len by (simp add: list_eq_iff_nth_eq less_Suc_eq numeral_2_eq_2)
  have n: "mode (busy_state\<lparr>activeTaskId := None\<rparr>) = POMODORO"
    "\<not> id_truthy (activeTaskId (busy_state\<lparr>activeTaskId := None\<rparr>))"
    using h by (simp_all add: id_truthy_def)
  from focus_completion_increments_active_task [OF n(1), of "''2024-05-01''"] n(2) h
  have "tasks (handleTimerComplete ''2024-05-01'' (busy_state\<lparr>activeTaskId := None\<rparr>))
          = [task_a, task_b]" by simp
  with h r show ?thesis by simp
qed

section \<open>Completed minutes of the day\<close>

lemma js_add_assoc: "js_add (js_add a b) c = js_add a (js_add b c)"
  by (cases a; cases b; cases c) simp_all

lemma js_add_zero: "js_add (Fin 0) a = a" "js_add a (Fin 0) = a"
  by (cases a; simp)+

lemma foldl_js_add:
  "foldl (\<lambda>acc t. js_add acc (g t)) a xs = js_add a (foldr js_add (map g xs) (Fin 0))"
  by (induction xs arbitrary: a) (simp_all add: js_add_zero js_add_assoc)

lemma completedMinutesToday_refines:
  "completedMinutesToday today ts = completedMinutesToday_spec today ts"
proof -
  have "filter (\<lambda>t. date_t t = today \<and> isCompleted t) ts
          = filter (\<lambda>t. isCompleted t \<and> date_t t = today) ts"
    by (rule filter_cong) auto
  then show ?thesis
    by (simp add: completedMinutesToday_def completedMinutesToday_spec_def js_sum_def
          foldl_js_add js_add_zero)
qed

lemma js_sum_finite:
  "\<forall>x\<in>set xs. x \<noteq> NaN \<Longrightarrow> js_sum xs = Fin (sum_list (map the_int xs))"
proof (induction xs)
  case Nil
  show ?case by (simp add: js_sum_def)
next
  case (Cons x xs)
  then obtain n where "x = Fin n" by (cases x) auto
  with Cons show ?case by (simp add: js_sum_def)
qed

lemma completedMinutesToday_finite:
  assumes "\<forall>t\<in>set ts. isCompleted t \<and> date_t t = today \<longrightarrow>
             estimatedPomos t \<noteq> NaN \<and> durationPerPomo t \<noteq> NaN"
  shows "completedMinutesToday today ts =
           Fin (\<Sum>t\<leftarrow>filter (\<lambda>t. isCompleted t \<and> date_t t = today) ts.
                  the_int (estimatedPomos t) * the_int (durationPerPomo t))"
proof -
  let ?sel = "filter (\<lambda>t. isCompleted t \<and> date_t t = today) ts"
  let ?g = "\<lambda>t. js_mul (estimatedPomos t) (durationPerPomo t)"
  have fin: "?g t \<noteq> NaN \<and> the_int (?g t) = the_int (estimatedPomos t) * the_int (durationPerPomo t)"
    if "t \<in> set ?sel" for t
  proof -
    from that assms obtain e d where "estimatedPomos t = Fin e" "durationPerPomo t = Fin d"
      by (cases "estimatedPomos t"; cases "durationPerPomo t") auto
    then show ?thesis by simp
  qed
  then have "\<forall>x\<in>set (map ?g ?sel). x \<noteq> NaN" by auto
  then have "js_sum (map ?g ?sel) = Fin (sum_list (map the_int (map ?g ?sel)))"
    by (rule js_sum_finite)
  also have "map the_int (map ?g ?sel)
               = map (\<lambda>t. the_int (estimatedPomos t) * the_int (durationPerPomo t)) ?sel"
    using fin by simp
  finally show ?thesis
    by (simp add: completedMinutesToday_refines completedMinutesToday_spec_def)
qed

lemma completedMinutesToday_ignores_completedPomos:
  "completedMinutesToday today (map (\<lambda>t. t\<lparr>completedPomos := g t\<rparr>) ts)
     = completedMinutesToday today ts"
  by (simp add: completedMinutesToday_refines completedMinutesToday_spec_def filter_map comp_def)

text \<open>
  Claim C9. The dashboard figure is the sum of \<open>estimatedPomos \<times> durationPerPomo\<close> over
  the tasks that are completed and scheduled for today; when these numbers are integers it
  is their integer sum. The value of \<open>completedPomos\<close> has no influence.
\<close>

theorem completedMinutesToday_sum:
  "completedMinutesToday today ts = completedMinutesToday_spec today ts \<and>
   ((\<forall>t\<in>set ts. isCompleted t \<and> date_t t = today \<longrightarrow>
        estimatedPomos t \<noteq> NaN \<and> durationPerPomo t \<noteq> NaN) \<longrightarrow>
    completedMinutesToday today ts =
      Fin (\<Sum>t\<leftarrow>filter (\<lambda>t. isCompleted t \<and> date_t t = today) ts.
             the_int (estimatedPomos t) * the_int (durationPerPomo t))) \<and>
   completedMinutesToday today (map (\<lambda>t. t\<lparr>completedPomos := g t\<rparr>) ts)
     = completedMinutesToday today ts"
  using completedMinutesToday_refines completedMinutesToday_finite
    completedMinutesToday_ignores_completedPomos by blast

theorem completedMinutesToday_sum_witness:
  "completedMinutesToday ''2024-05-01'' [task_a, task_b] = Fin 75 \<and>
   completedMinutesToday ''2024-05-01'' [task_a, task_b\<lparr>completedPomos := Fin 9\<rparr>] = Fin 75"
proof -
  have sel: "filter (\<lambda>t. isCompleted t \<and> date_t t = ''2024-05-01'') [task_a, task_b] = [task_b]"
    by (simp add: task_a_def task_b_def)
  have fin: "\<forall>t\<in>set [task_a, task_b]. isCompleted t \<and> date_t t = ''2024-05-01'' \<longrightarrow>
               estimatedPomos t \<noteq> NaN \<and> durationPerPomo t \<noteq> NaN"
    by (simp add: task_a_def task_b_def)
  note c = completedMinutesToday_sum [of "''2024-05-01''" "[task_a, task_b]"
                  "\<lambda>t. if id_t t = ''b'' then Fin 9 else completedPomos t"]
  from c [THEN conjunct2, THEN conjunct1] fin
  have "completedMinutesToday ''2024-05-01'' [task_a, task_b] =
          Fin (\<Sum>t\<leftarrow>filter (\<lambda>t. isCompleted t \<and> date_t t = ''2024-05-01'') [task_a, task_b].
                 the_int (estimatedPomos t) * the_int (durationPerPomo t))"
    by (rule mp)
  also have "\<dots> = Fin 75" unfolding sel by (simp add: task_b_def)
  finally have v: "completedMinutesToday ''2024-05-01'' [task_a, task_b] = Fin 75" .
  have m: "map (\<lambda>t. t\<lparr>completedPomos := if id_t t = ''b'' then Fin 9 else completedPomos t\<rparr>)
             [task_a, task_b] = [task_a, task_b\<lparr>completedPomos := Fin 9\<rparr>]"
    by (simp add: task_a_def task_b_def)
  from c [THEN conjunct2, THEN conjunct2] v show ?thesis unfolding m by simp
qed

section \<open>Start of the day\<close>

lemma find_None_iff_dates: "(find P xs = None) = (\<forall>x\<in>set xs. \<not> P x)"
  by (induction xs) simp_all

text \<open>
  Claim C10. The start-up effect leaves \<open>lastActiveDate\<close> equal to today and the other
  settings untouched. When no record is dated today it appends one with four zero
  counters; when one exists the list is unchanged. In both cases the records that were
  there are kept, in place.
\<close>

theorem checkStreakOnLoad_rollover:
  "settings (checkStreakOnLoad today c) = (settings c)\<lparr>lastActiveDate := today\<rparr> \<and>
   lastActiveDate (settings (checkStreakOnLoad today c)) = today \<and>
   ((\<forall>day\<in>set (dailyStats c). date_d day \<noteq> today) \<longrightarrow>
      dailyStats (checkStreakOnLoad today c) = dailyStats c @
        [\<lparr>date_d = today, pomodorosCompleted = Fin 0, minutesFocused = Fin 0,
          breaksTaken = Fin 0, tasksCompleted = Fin 0\<rparr>]) \<and>
   ((\<exists>day\<in>set (dailyStats c). date_d day = today) \<longrightarrow>
      dailyStats (checkStreakOnLoad today c) = dailyStats c) \<and>
   take (length (dailyStats c)) (dailyStats (checkStreakOnLoad today c)) = dailyStats c"
proof (cases "find (\<lambda>s. date_d s = today) (dailyStats c)")
  case None
  then have "\<forall>day\<in>set (dailyStats c). date_d day \<noteq> today"
    by (simp add: find_None_iff_dates)
  with None show ?thesis
    by (auto simp add: checkStreakOnLoad_def Let_def)
next
  case (Some d)
  then have "\<exists>day\<in>set (dailyStats c). date_d day = today"
    using find_None_iff_dates [of "\<lambda>s. date_d s = today" "dailyStats c"] by auto
  with Some show ?thesis
    by (auto simp add: checkStreakOnLoad_def Let_def)
qed

theorem checkStreakOnLoad_rollover_witness:
  "lastActiveDate (settings busy_state) \<noteq> ''2024-05-02'' \<and>
   dailyStats busy_state = [day_old, day_now] \<and>
   lastActiveDate (settings (checkStreakOnLoad ''2024-05-02'' busy_state)) = ''2024-05-02'' \<and>
   dailyStats (checkStreakOnLoad ''2024-05-02'' busy_state) =
     [day_old, day_now,
      \<lparr>date_d = ''2024-05-02'', pomodorosCompleted = Fin 0, minutesFocused = Fin 0,
        breaksTaken = Fin 0, tasksCompleted = Fin 0\<rparr>] \<and>
   dailyStats (checkStreakOnLoad ''2024-05-01'' busy_state) = [day_old, day_now]"
proof -
  have h: "lastActiveDate (settings busy_state) \<noteq> ''2024-05-02''"
    "dailyStats busy_state = [day_old, day_now]"
    "date_d day_old = ''2024-04-30''" "date_d day_now = ''2024-05-01''"
    by (simp_all add: busy_state_def DEFAULT_SETTINGS_def day_old_def day_now_def)
  from checkStreakOnLoad_rollover [of "''2024-05-02''" busy_state] h
  have a: "lastActiveDate (settings (checkStreakOnLoad ''2024-05-02'' busy_state)) = ''2024-05-02''"
    and b: "dailyStats (checkStreakOnLoad ''2024-05-02'' busy_state) =
     [day_old, day_now,
      \<lparr>date_d = ''2024-05-02'', pomodorosCompleted = Fin 0, minutesFocused = Fin 0,
        breaksTaken = Fin 0, tasksCompleted = Fin 0\<rparr>]"
    by simp_all
  from checkStreakOnLoad_rollover [of "''2024-05-01''" busy_state] h
  have c: "dailyStats (checkStreakOnLoad ''2024-05-01'' busy_state) = [day_old, day_now]"
    by simp
  from h a b c show ?thesis by simp
qed

section \<open>The duration of the session in progress\<close>

text \<open>
  \<open>resetTimerToMode\<close> takes the override of the selected task as it is. The expression
  \<open>sessionMinutes\<close> of \<open>handleTimerComplete\<close> and \<open>resetTimer\<close> agrees with it when the
  override is a number other than zero, and falls back to \<open>settings.pomodoroTime\<close> when
  the override is \<open>0\<close> or \<open>NaN\<close>.
\<close>

lemma sessionMinutes_override:
  "activeTaskId c = Some a \<Longrightarrow> a \<noteq> [] \<Longrightarrow> find (\<lambda>t. id_t t = a) (tasks c) = Some t \<Longrightarrow>
     js_truthy (durationPerPomo t) \<Longrightarrow> sessionMinutes c = durationPerPomo t"
  by (simp add: sessionMinutes_def id_truthy_def findActive_def js_or_def)

lemma sessionMinutes_falsy_override:
  "activeTaskId c = Some a \<Longrightarrow> find (\<lambda>t. id_t t = a) (tasks c) = Some t \<Longrightarrow>
     \<not> js_truthy (durationPerPomo t) \<Longrightarrow> sessionMinutes c = pomodoroTime (settings c)"
  by (simp add: sessionMinutes_def id_truthy_def findActive_def js_or_def)

lemma sessionMinutes_no_task:
  "activeTaskId c = None \<Longrightarrow> sessionMinutes c = pomodoroTime (settings c)"
  by (simp add: sessionMinutes_def id_truthy_def)

lemma focus_completion_minutes:
  "mode c = POMODORO \<Longrightarrow> i < length (dailyStats c) \<Longrightarrow> date_d (dailyStats c ! i) = today \<Longrightarrow>
     minutesFocused (dailyStats (handleTimerComplete today c) ! i)
       = js_add (minutesFocused (dailyStats c ! i)) (sessionMinutes c)"
  by (simp add: handleTimerComplete_dailyStats)

lemma resetTimer_sounds:
  "sounds (resetTimer c) =
     (if isActive c \<or>
         \<not> js_eq (timeLeft c)
              (js_mul (if mode c = POMODORO then sessionMinutes c else breakTime (settings c))
                      (Fin 60))
      then sounds c @ [fail] else sounds c)"
  by (simp add: resetTimer_def Let_def resetTimerToMode_frame playSound_def)

text \<open>
  When the selected task has an override other than \<open>0\<close> and \<open>NaN\<close>, or no task is found,
  Reset compares the clock with the very value it then resets it to.
\<close>

lemma resetTimer_cue_iff:
  assumes "case findActive (tasks c) (activeTaskId c) of
             None \<Rightarrow> True
           | Some t \<Rightarrow> id_truthy (activeTaskId c) \<and> js_truthy (durationPerPomo t)"
  shows "sounds (resetTimer c) =
           (if isActive c \<or> \<not> js_eq (timeLeft c) (timeLeft (resetTimerToMode c (mode c) c))
            then sounds c @ [fail] else sounds c)"
proof -
  have "js_mul (if mode c = POMODORO then sessionMinutes c else breakTime (settings c)) (Fin 60)
          = timeLeft (resetTimerToMode c (mode c) c)"
    using assms
    by (simp add: resetTimerToMode_def sessionMinutes_def js_or_def Let_def split: option.splits)
  then show ?thesis by (simp add: resetTimer_sounds)
qed


lemma parseInt_empty: "parseInt [] = NaN"
  by (simp add: parseInt_def)

lemma parseInt_minus5: "parseInt ''-5'' = Fin (- 5)"
  by (simp add: parseInt_def parse_digits_def is_space_def is_digit_def digits_val_def
        digit_val_def)




section \<open>Numeric inputs\<close>

text \<open>
  The break input coerces what is typed to an integer of at least one. The quick-edit
  duration input replaces \<open>NaN\<close> and \<open>0\<close> by 25 and lets every other integer through.
\<close>

lemma js_or_never_NaN: "b \<noteq> NaN \<Longrightarrow> js_or a b \<noteq> NaN"
  by (cases a) (simp_all add: js_or_def)

lemma breakInput_coerced:
  "\<exists>n\<ge>1. breakTime (settings (breakInputChange v c)) = Fin n"
proof -
  obtain k where k: "js_or (parseInt v) (Fin 0) = Fin k"
    using js_or_never_NaN [of "Fin 0" "parseInt v"] by (cases "js_or (parseInt v) (Fin 0)") auto
  have "breakTime (settings (breakInputChange v c)) = Fin (max 1 k)"
    by (simp add: breakInputChange_def handleBreakChange_def durationEffect_def Let_def k
          resetTimerToMode_frame)
  then show ?thesis by auto
qed

lemma durationInput_truthy: "js_truthy (js_or (parseInt v) (Fin 25))"
  by (simp add: js_or_def)

text \<open>
  Claim C7. Every duration or estimate typed by the user is coerced to a safe value before
  it enters the state, so that no \<open>durationPerPomo\<close>, \<open>estimatedPomos\<close> or \<open>timeLeft\<close> is
  \<open>NaN\<close> or negative. The code does not do this on three of its five inputs: the add-task
  form submitted with an empty duration field stores a task whose duration is \<open>NaN\<close>, and
  the next Reset makes the clock \<open>NaN\<close>; an emptied quick-edit estimate is stored as \<open>NaN\<close>;
  \<open>-5\<close> typed in the quick-edit duration of the selected task of a paused focus timer is
  stored, and the clock becomes \<open>-300\<close>.
\<close>

theorem unchecked_inputs_reach_state:
  "tasks (snd (handleSubmit ''2024-05-01'' ''u1''
                 (customDurationChange [] form_open, initial_state ''2024-05-01'')))
     = [\<lparr>id_t = ''u1'', title = ''plan'', isCompleted = False, estimatedPomos = Fin 1,
         completedPomos = Fin 0, durationPerPomo = NaN, date_t = ''2024-05-01''\<rparr>] \<and>
   timeLeft (resetTimer (snd (handleSubmit ''2024-05-01'' ''u1''
                 (customDurationChange [] form_open, initial_state ''2024-05-01'')))) = NaN \<and>
   estimatedPomos (hd (tasks (estimateInputChange ''a'' [] paused_state))) = NaN \<and>
   durationPerPomo (hd (tasks (durationInputChange ''a'' ''-5'' paused_state))) = Fin (- 5) \<and>
   timeLeft (durationInputChange ''a'' ''-5'' paused_state) = Fin (- 300)"
  by (simp add: parseInt_empty parseInt_minus5 handleSubmit_def customDurationChange_def
        form_open_def initial_state_def DEFAULT_SETTINGS_def addTask_def id_truthy_def
        is_space_def resetTimer_def resetTimerToMode_def findActive_def sessionMinutes_def
        js_or_def playSound_def Let_def estimateInputChange_def updatePomos_def
        durationInputChange_def updateTaskDuration_def paused_state_def busy_state_def
        task_a_def task_b_def)

end
